theory Spec2Isabelle
  imports Complex_Main "HOL-Library.Sublist"
begin

section \<open>The merge endpoint of the PDF merger service\<close>

text \<open>
  A shallow embedding of \<^verbatim>\<open>src/backend/server.js\<close>: the function \<^verbatim>\<open>imageToPdf\<close> and the
  handler of \<^verbatim>\<open>POST /api/merge\<close>. The handler is sequential (every asynchronous call is
  awaited), so it is modelled as a function from the request and the environment to the
  response and the list of file-system calls it issues.

  JavaScript strings are modelled as \<^typ>\<open>string\<close>, with 8-bit characters. What the
  libraries (pdf-lib, sharp, fs-extra, uuid) answer is not code of this repository: it is
  given by the environment, a record of functions, and every theorem holds for all
  environments. The calls that may fail there are \<^verbatim>\<open>fs.readFile\<close>, \<^verbatim>\<open>PDFDocument.load\<close> of an
  upload, \<^verbatim>\<open>metadata\<close>, \<^verbatim>\<open>embedPng\<close>, \<^verbatim>\<open>embedJpg\<close>, \<^verbatim>\<open>fs.writeFile\<close> and \<^verbatim>\<open>fs.remove\<close>. The calls
  on a document that pdf-lib itself built or loaded (\<^verbatim>\<open>create\<close>, \<^verbatim>\<open>addPage\<close>, \<^verbatim>\<open>drawImage\<close>,
  \<^verbatim>\<open>copyPages\<close>, \<^verbatim>\<open>save\<close>, and \<^verbatim>\<open>load\<close> of the bytes just saved) are taken not to throw. Output
  on the console is not modelled.
\<close>

subsection \<open>String and path primitives\<close>

text \<open>
  \<^verbatim>\<open>String.prototype.toLowerCase\<close>, on the letters A to Z; every other character is left
  as it is. The handler only compares the result with the literals \<^verbatim>\<open>'.pdf'\<close> and
  \<^verbatim>\<open>'.png'\<close>.
\<close>

definition lower_char :: "char \<Rightarrow> char" where
  "lower_char c =
     (case map_of (zip ''ABCDEFGHIJKLMNOPQRSTUVWXYZ'' ''abcdefghijklmnopqrstuvwxyz'') c of
        None \<Rightarrow> c
      | Some d \<Rightarrow> d)"

definition toLowerCase :: "string \<Rightarrow> string" where
  "toLowerCase s = map lower_char s"

text \<open>
  \<^verbatim>\<open>path.extname\<close> of Node.js (POSIX flavour): trailing slashes are ignored, the last path
  component is taken, and the extension runs from its last dot to its end. The result is
  empty when the component has no dot, when its only dot is its first character, and when
  the component is \<^verbatim>\<open>..\<close>.
\<close>

definition extname :: "string \<Rightarrow> string" where
  "extname p =
     (let trimmed = dropWhile (\<lambda>c. c = CHR ''/'') (rev p);
          part = takeWhile (\<lambda>c. c \<noteq> CHR ''/'') trimmed;
          after = takeWhile (\<lambda>c. c \<noteq> CHR ''.'') part;
          stem = drop (Suc (length after)) part
      in if length after = length part then []
         else if stem = [] then []
         else if part = ''..'' then []
         else CHR ''.'' # rev after)"

text \<open>\<^verbatim>\<open>s.startsWith(id)\<close>.\<close>

definition startsWith :: "string \<Rightarrow> string \<Rightarrow> bool" where
  "startsWith s searchString = prefix searchString s"

subsection \<open>Requests\<close>

text \<open>
  An uploaded file as multer's disk storage hands it to the handler: \<^verbatim>\<open>filename\<close> is the
  generated storage name (\<^verbatim>\<open>`${uuidv4()}-${file.originalname}`\<close>) and \<^verbatim>\<open>path\<close> the place of
  the stored upload under the temp directory.
\<close>

record uploaded_file =
  originalname :: string
  mimetype :: string
  filename :: string
  path :: string

text \<open>
  The disk storage of multer (lines 31 to 39): an incoming file with its original name
  and declared type is stored under \<^verbatim>\<open>`${uuidv4()}-${file.originalname}`\<close> in the temp
  directory, and \<^verbatim>\<open>path\<close> is the directory joined with that name.
\<close>

definition diskStorage :: "string \<Rightarrow> string \<Rightarrow> string \<Rightarrow> string \<Rightarrow> uploaded_file" where
  "diskStorage tempDir uuid name mime =
     \<lparr>originalname = name, mimetype = mime,
      filename = uuid @ ''-'' @ name,
      path = tempDir @ ''/'' @ uuid @ ''-'' @ name\<rparr>"


text \<open>
  The \<^verbatim>\<open>order\<close> field of the request body, by what \<^verbatim>\<open>JSON.parse(order || '[]')\<close> and the
  resolution after it make of it:
  \<^item> \<open>NoOrder\<close>: the field is absent or the empty string, so \<^verbatim>\<open>'[]'\<close> is parsed;
  \<^item> \<open>BadJSON m\<close>: a text that \<^verbatim>\<open>JSON.parse\<close> rejects with a SyntaxError of message \<open>m\<close>
    (\<^verbatim>\<open>{\<close> for example);
  \<^item> \<open>NotIdArray m\<close>: valid JSON on which the resolution raises a TypeError of message \<open>m\<close>:
    a value that is not an array (\<^verbatim>\<open>5\<close>, \<^verbatim>\<open>{}\<close>, \<^verbatim>\<open>"a"\<close>, \<^verbatim>\<open>null\<close>), which has no \<^verbatim>\<open>map\<close>, or an
    array with an element that \<^verbatim>\<open>startsWith\<close> cannot convert to a string (\<^verbatim>\<open>{"toString":1}\<close>);
  \<^item> \<open>IdArray ids\<close>: a JSON array; each element is given as the string that
    \<^verbatim>\<open>startsWith\<close> converts it to.
\<close>

datatype order_field =
    NoOrder
  | BadJSON string
  | NotIdArray string
  | IdArray "string list"

text \<open>\<^verbatim>\<open>req.files\<close> is \<open>None\<close> when it is undefined.\<close>

record request =
  order :: order_field
  files :: "uploaded_file list option"

datatype error = SyntaxError string | TypeError string | Error string

fun message :: "error \<Rightarrow> string" where
  "message (SyntaxError m) = m"
| "message (TypeError m) = m"
| "message (Error m) = m"

subsection \<open>Ordering resolution (lines 93 to 100)\<close>

definition JSON_parse_order :: "order_field \<Rightarrow> error + string list" where
  "JSON_parse_order ord =
     (case ord of
        NoOrder \<Rightarrow> Inr []
      | BadJSON m \<Rightarrow> Inl (SyntaxError m)
      | NotIdArray m \<Rightarrow> Inl (TypeError m)
      | IdArray ids \<Rightarrow> Inr ids)"

text \<open>
  \<^verbatim>\<open>orderArray.map(id => files.find(f => f.filename.startsWith(id))).filter(Boolean)\<close>:
  an identifier that no file matches gives \<^verbatim>\<open>undefined\<close>, which the filter drops.
\<close>

definition sortedFiles :: "string list \<Rightarrow> uploaded_file list \<Rightarrow> uploaded_file list" where
  "sortedFiles orderArray fs =
     concat (map (\<lambda>id. case find (\<lambda>f. startsWith (filename f) id) fs of
                            None \<Rightarrow> []
                          | Some f \<Rightarrow> [f]) orderArray)"

definition remainingFiles :: "string list \<Rightarrow> uploaded_file list \<Rightarrow> uploaded_file list" where
  "remainingFiles orderArray fs =
     filter (\<lambda>f. \<not> list_ex (\<lambda>id. startsWith (filename f) id) orderArray) fs"

definition allFiles :: "string list \<Rightarrow> uploaded_file list \<Rightarrow> uploaded_file list" where
  "allFiles orderArray fs = sortedFiles orderArray fs @ remainingFiles orderArray fs"

definition resolve :: "order_field \<Rightarrow> uploaded_file list \<Rightarrow> error + uploaded_file list" where
  "resolve ord fs =
     (case JSON_parse_order ord of
        Inl e \<Rightarrow> Inl e
      | Inr orderArray \<Rightarrow> Inr (allFiles orderArray fs))"

subsection \<open>Numbers of the page size\<close>

text \<open>
  The JavaScript numbers that the page size computation can produce. Its operands are
  never negative, so one infinity is enough. A finite value is kept as the exact
  rational: the rounding of the binary64 division is not modelled.
\<close>

datatype jsnum = Num rat | Infinity | NaN

fun js_mul :: "jsnum \<Rightarrow> jsnum \<Rightarrow> jsnum" where
  "js_mul (Num p) (Num q) = Num (p * q)"
| "js_mul (Num p) Infinity = (if p = 0 then NaN else Infinity)"
| "js_mul Infinity (Num q) = (if q = 0 then NaN else Infinity)"
| "js_mul Infinity Infinity = Infinity"
| "js_mul _ _ = NaN"

fun js_div :: "jsnum \<Rightarrow> jsnum \<Rightarrow> jsnum" where
  "js_div (Num p) (Num q) = (if q = 0 then (if p = 0 then NaN else Infinity) else Num (p / q))"
| "js_div (Num p) Infinity = Num 0"
| "js_div Infinity (Num q) = Infinity"
| "js_div _ _ = NaN"

text \<open>\<^verbatim>\<open>a || b\<close> on numbers: \<^verbatim>\<open>0\<close> and \<^verbatim>\<open>NaN\<close> are falsy.\<close>

definition js_or :: "jsnum \<Rightarrow> jsnum \<Rightarrow> jsnum" where
  "js_or a b = (if a = Num 0 \<or> a = NaN then b else a)"

text \<open>A property that may be \<^verbatim>\<open>undefined\<close>, used as a number: \<^verbatim>\<open>undefined\<close> converts to \<^verbatim>\<open>NaN\<close>.\<close>

definition to_number :: "nat option \<Rightarrow> jsnum" where
  "to_number v = (case v of None \<Rightarrow> NaN | Some n \<Rightarrow> Num (of_nat n))"

subsection \<open>The environment\<close>

text \<open>
  What \<^verbatim>\<open>sharp(imageBuffer).metadata()\<close> reports: the pixel width and height, and the
  density in pixels per inch when the image carries one.
\<close>

record metadata =
  width :: nat
  height :: nat
  density :: "nat option"

text \<open>
  The answers of the libraries. A call that rejects or throws is \<open>None\<close> where the handler
  discards the error, and carries the error where the handler reports it.
  \<^item> \<open>fs_readFile p\<close>: the bytes stored at path \<open>p\<close>;
  \<^item> \<open>PDFDocument_load b\<close>: the pages of the document parsed from the bytes \<open>b\<close>, each an
    opaque content;
  \<^item> \<open>sharp_metadata b\<close>, \<open>embedPng b\<close>, \<open>embedJpg b\<close>: the metadata of the image \<open>b\<close> and
    the image object embedded from it;
  \<^item> \<open>fs_writeFile p\<close> and \<open>fs_remove p\<close>: the error of the call on path \<open>p\<close>, if any;
  \<^item> \<open>uuidv4\<close>: the identifier drawn for the output file, \<open>uploadsDir\<close> the directory.
\<close>

record env =
  fs_readFile :: "string \<Rightarrow> string option"
  PDFDocument_load :: "string \<Rightarrow> string list option"
  sharp_metadata :: "string \<Rightarrow> metadata option"
  embedPng :: "string \<Rightarrow> string option"
  embedJpg :: "string \<Rightarrow> string option"
  fs_writeFile :: "string \<Rightarrow> error option"
  fs_remove :: "string \<Rightarrow> error option"
  uuidv4 :: string
  uploadsDir :: string

subsection \<open>Pages\<close>

text \<open>
  A page made by \<^verbatim>\<open>imageToPdf\<close>: the size given to \<^verbatim>\<open>addPage\<close> and the one image drawn on
  it with the options of \<^verbatim>\<open>drawImage\<close>.
\<close>

record image_page =
  page_width :: jsnum
  page_height :: jsnum
  image :: string
  image_x :: jsnum
  image_y :: jsnum
  image_width :: jsnum
  image_height :: jsnum

text \<open>
  A page of a document: a page of an uploaded PDF, with its content as the library loaded
  it, a page that \<^verbatim>\<open>imageToPdf\<close> made, or the blank page of default size that \<^verbatim>\<open>save\<close> adds.
  \<^verbatim>\<open>copyPages\<close> followed by \<^verbatim>\<open>addPage\<close> appends the page as it is, and loading the bytes that
  \<^verbatim>\<open>save\<close> returned gives the saved pages back.
\<close>

datatype page = SourcePage string | NewPage image_page | BlankPage

text \<open>
  \<^verbatim>\<open>pdfDoc.save()\<close>, as the list of pages of the saved document. The handler passes no
  options, and with the default \<^verbatim>\<open>addDefaultPage: true\<close> pdf-lib adds one blank page to a
  document that has no page before it serialises it.
\<close>

definition save :: "page list \<Rightarrow> page list" where
  "save pdfDoc = (if length pdfDoc = 0 then [BlankPage] else pdfDoc)"

subsection \<open>\<^verbatim>\<open>imageToPdf\<close> (lines 57 to 81)\<close>

text \<open>
  \<^verbatim>\<open>[metadata.width * 72 / metadata.density || 72, metadata.height * 72 / metadata.density || 72]\<close>:
  \<^verbatim>\<open>*\<close> and \<^verbatim>\<open>/\<close> bind tighter than \<^verbatim>\<open>||\<close>.
\<close>

definition page_size :: "metadata \<Rightarrow> jsnum \<times> jsnum" where
  "page_size md =
     (js_or (js_div (js_mul (Num (of_nat (width md))) (Num 72)) (to_number (density md))) (Num 72),
      js_or (js_div (js_mul (Num (of_nat (height md))) (Num 72)) (to_number (density md))) (Num 72))"

definition embedImage :: "env \<Rightarrow> string \<Rightarrow> string \<Rightarrow> string option" where
  "embedImage e imagePath imageBuffer =
     (if toLowerCase (extname imagePath) = ''.png''
      then embedPng e imageBuffer
      else embedJpg e imageBuffer)"

text \<open>The result is the saved document, as its list of pages; \<open>None\<close> when a call throws.\<close>

definition imageToPdf :: "env \<Rightarrow> string \<Rightarrow> page list option" where
  "imageToPdf e imagePath =
     (case fs_readFile e imagePath of
        None \<Rightarrow> None
      | Some imageBuffer \<Rightarrow>
          (case sharp_metadata e imageBuffer of
             None \<Rightarrow> None
           | Some md \<Rightarrow>
               (case embedImage e imagePath imageBuffer of
                  None \<Rightarrow> None
                | Some img \<Rightarrow>
                    (case page_size md of
                       (w, h) \<Rightarrow>
                         Some (save [NewPage \<lparr>page_width = w, page_height = h, image = img,
                                              image_x = Num 0, image_y = Num 0,
                                              image_width = w, image_height = h\<rparr>])))))"

subsection \<open>The merge loop (lines 103 to 130)\<close>

text \<open>
  The body of the inner \<^verbatim>\<open>try\<close> for one file: the pages it appends to \<^verbatim>\<open>mergedPdf\<close>, or
  \<open>None\<close> when a call throws. \<^verbatim>\<open>const [page] = await mergedPdf.copyPages(imagePdf, [0])\<close>
  throws on a document without pages.
\<close>

definition process_file :: "env \<Rightarrow> uploaded_file \<Rightarrow> page list option" where
  "process_file e file =
     (if toLowerCase (extname (originalname file)) = ''.pdf''
      then (case fs_readFile e (path file) of
              None \<Rightarrow> None
            | Some pdfBytes \<Rightarrow>
                (case PDFDocument_load e pdfBytes of
                   None \<Rightarrow> None
                 | Some pdf \<Rightarrow> Some (map SourcePage pdf)))
      else (case imageToPdf e (path file) of
              None \<Rightarrow> None
            | Some imagePdf \<Rightarrow>
                (case imagePdf of
                   [] \<Rightarrow> None
                 | pg # _ \<Rightarrow> Some [pg])))"

text \<open>
  \<^verbatim>\<open>for (const file of allFiles)\<close>, with the pages of \<^verbatim>\<open>mergedPdf\<close> so far as the
  accumulator; the \<^verbatim>\<open>catch\<close> replaces any error by one that names the file.
\<close>

fun merge_loop :: "env \<Rightarrow> uploaded_file list \<Rightarrow> page list \<Rightarrow> error + page list" where
  "merge_loop e [] mergedPdf = Inr mergedPdf"
| "merge_loop e (file # rest) mergedPdf =
     (case process_file e file of
        None \<Rightarrow> Inl (Error (''Failed to process '' @ originalname file))
      | Some copiedPages \<Rightarrow> merge_loop e rest (mergedPdf @ copiedPages))"

text \<open>
  Lines 103 to 130 as a whole: \<^verbatim>\<open>PDFDocument.create()\<close>, the loop, and
  \<^verbatim>\<open>const mergedPdfBytes = await mergedPdf.save()\<close>.
\<close>

definition merged_document :: "env \<Rightarrow> uploaded_file list \<Rightarrow> error + page list" where
  "merged_document e sequence =
     (case merge_loop e sequence [] of
        Inl err \<Rightarrow> Inl err
      | Inr mergedPdf \<Rightarrow> Inr (save mergedPdf))"

text \<open>
  A file that can be parsed or embedded, in terms of what the libraries answer on its
  stored bytes: under a name with the extension \<^verbatim>\<open>.pdf\<close>, the bytes are read and pdf-lib loads
  them; under any other name, the bytes are read, sharp reports their metadata and pdf-lib
  embeds them with the codec of the path's extension. This is a condition on the upload
  and the environment, stated apart from \<open>process_file\<close>, against which the loop is
  compared.
\<close>

definition can_parse_or_embed :: "env \<Rightarrow> uploaded_file \<Rightarrow> bool" where
  "can_parse_or_embed e f =
     (case fs_readFile e (path f) of
        None \<Rightarrow> False
      | Some bytes \<Rightarrow>
          if toLowerCase (extname (originalname f)) = ''.pdf''
          then PDFDocument_load e bytes \<noteq> None
          else sharp_metadata e bytes \<noteq> None \<and> embedImage e (path f) bytes \<noteq> None)"

subsection \<open>Cleanup and the handler (lines 84 to 162)\<close>

text \<open>The calls that change the file system, in the order the handler issues them.\<close>

datatype fs_call =
    WriteFile string "page list"
  | Remove string
  | RemoveAfter nat string


text \<open>\<^verbatim>\<open>promise.catch(console.error)\<close>: a rejection is logged and the promise fulfils.\<close>

definition catch_log :: "error option \<Rightarrow> error option" where
  "catch_log r = (case r of None \<Rightarrow> None | Some err \<Rightarrow> None)"

text \<open>
  \<^verbatim>\<open>for (const file of fs) { await fs.remove(file.path).catch(console.error); }\<close>:
  the calls issued, and the error that left the loop, if any.
\<close>

fun cleanup :: "env \<Rightarrow> uploaded_file list \<Rightarrow> fs_call list \<times> error option" where
  "cleanup e [] = ([], None)"
| "cleanup e (file # rest) =
     (case catch_log (fs_remove e (path file)) of
        Some err \<Rightarrow> ([Remove (path file)], Some err)
      | None \<Rightarrow>
          (case cleanup e rest of
             (calls, r) \<Rightarrow> (Remove (path file) # calls, r)))"

text \<open>\<^verbatim>\<open>path.join(uploadsDir, `merged-${uuidv4()}.pdf`)\<close>.\<close>

definition outputPath :: "env \<Rightarrow> string" where
  "outputPath e = uploadsDir e @ ''/'' @ ''merged-'' @ uuidv4 e @ ''.pdf''"

text \<open>
  The body of the outer \<^verbatim>\<open>try\<close> after the guard, up to the call of \<^verbatim>\<open>res.download\<close>: the
  calls issued, and either the error thrown or the path handed to \<^verbatim>\<open>res.download\<close>.
\<close>

definition try_merge :: "env \<Rightarrow> order_field \<Rightarrow> uploaded_file list \<Rightarrow> fs_call list \<times> (error + string)" where
  "try_merge e ord fs =
     (case resolve ord fs of
        Inl err \<Rightarrow> ([], Inl err)
      | Inr sequence \<Rightarrow>
          (case merged_document e sequence of
             Inl err \<Rightarrow> ([], Inl err)
           | Inr mergedPdfBytes \<Rightarrow>
               (case fs_writeFile e (outputPath e) of
                  Some err \<Rightarrow> ([WriteFile (outputPath e) mergedPdfBytes], Inl err)
                | None \<Rightarrow>
                    (case cleanup e sequence of
                       (calls, Some err) \<Rightarrow>
                         (WriteFile (outputPath e) mergedPdfBytes # calls, Inl err)
                     | (calls, None) \<Rightarrow>
                         (WriteFile (outputPath e) mergedPdfBytes # calls, Inr (outputPath e))))))"

text \<open>
  What the client receives: a JSON body with a status and an error message, the download
  of a stored file under a name, or nothing when an error escapes the handler.
\<close>

datatype response =
    Json nat string
  | Download string string
  | Unhandled error

text \<open>\<^verbatim>\<open>error.message || 'Failed to merge files'\<close>.\<close>

definition error_message :: "error \<Rightarrow> string" where
  "error_message err = (if message err = [] then ''Failed to merge files'' else message err)"

text \<open>
  The handler. The callback of \<^verbatim>\<open>res.download\<close> runs when the transfer ends, with or without
  an error, and sets the timer that removes the output after 60000 ms.
\<close>

definition merge_handler :: "env \<Rightarrow> request \<Rightarrow> response \<times> fs_call list" where
  "merge_handler e req =
     (case files req of
        None \<Rightarrow> (Json 400 ''No files uploaded'', [])
      | Some fs \<Rightarrow>
          if length fs = 0 then (Json 400 ''No files uploaded'', [])
          else
            (case try_merge e (order req) fs of
               (calls, Inr out) \<Rightarrow>
                 (Download out ''merged-invoice.pdf'', calls @ [RemoveAfter 60000 out])
             | (calls, Inl err) \<Rightarrow>
                 (case cleanup e fs of
                    (calls', Some err') \<Rightarrow> (Unhandled err', calls @ calls')
                  | (calls', None) \<Rightarrow> (Json 500 (error_message err), calls @ calls'))))"

subsection \<open>A concrete request\<close>

text \<open>
  Six uploads and an environment, used to run the handler: a PDF of two pages, a PNG of
  200 by 100 pixels without density, a JPEG of 300 by 150 pixels at 72 pixels per inch, a
  file named as a PDF whose bytes do not parse, a file named as a JPEG whose bytes do not
  decode, and a PDF without pages. Removing the PNG's temp file fails.
\<close>

definition temp :: string where
  "temp = ''/srv/backend/uploads/temp''"

definition invoice :: uploaded_file where
  "invoice = diskStorage temp ''a1f3c2d4-5b6e-4f70-8a91-b2c3d4e5f601''
               ''invoice.pdf'' ''application/pdf''"

definition photo :: uploaded_file where
  "photo = diskStorage temp ''a2c4e6f8-1b3d-4a5c-9e7f-0123456789ab''
             ''photo.png'' ''image/png''"

definition scan :: uploaded_file where
  "scan = diskStorage temp ''b7d9f1a3-2c4e-4b6d-8f01-23456789abcd''
            ''scan.jpg'' ''image/jpeg''"

definition broken :: uploaded_file where
  "broken = diskStorage temp ''c0de1234-5678-4abc-9def-0123456789ab''
              ''broken.pdf'' ''application/pdf''"

definition corrupt :: uploaded_file where
  "corrupt = diskStorage temp ''d4e5f6a7-b8c9-4d0e-9f1a-2b3c4d5e6f70''
               ''corrupt.jpg'' ''image/jpeg''"

definition empty_pdf :: uploaded_file where
  "empty_pdf = diskStorage temp ''f0e1d2c3-b4a5-4968-8776-5a4b3c2d1e0f''
                 ''empty.pdf'' ''application/pdf''"

definition disk :: "string \<Rightarrow> string option" where
  "disk p =
     (if p = path invoice then Some ''invoice bytes''
      else if p = path photo then Some ''photo bytes''
      else if p = path scan then Some ''scan bytes''
      else if p = path broken then Some ''broken bytes''
      else if p = path corrupt then Some ''corrupt bytes''
      else if p = path empty_pdf then Some ''empty bytes''
      else None)"

definition example_env :: env where
  "example_env =
     \<lparr>fs_readFile = disk,
      PDFDocument_load =
        (\<lambda>b. if b = ''invoice bytes'' then Some [''invoice page 1'', ''invoice page 2'']
             else if b = ''empty bytes'' then Some []
             else None),
      sharp_metadata =
        (\<lambda>b. if b = ''photo bytes'' then Some \<lparr>width = 200, height = 100, density = None\<rparr>
             else if b = ''scan bytes''
             then Some \<lparr>width = 300, height = 150, density = Some 72\<rparr>
             else None),
      embedPng = (\<lambda>b. if b = ''photo bytes'' then Some ''photo image'' else None),
      embedJpg = (\<lambda>b. if b = ''scan bytes'' then Some ''scan image'' else None),
      fs_writeFile = (\<lambda>p. None),
      fs_remove = (\<lambda>p. if p = path photo then Some (Error ''EPERM'') else None),
      uuidv4 = ''9e8d7c6b-5a49-4382-b716-05f4e3d2c1b0'',
      uploadsDir = ''/srv/backend/uploads''\<rparr>"

text \<open>
  A second run on the same two incoming files, the PDF and the JPEG: the uploads are stored
  under other identifiers, another identifier is drawn for the output, and every removal
  succeeds.
\<close>

definition invoice2 :: uploaded_file where
  "invoice2 = diskStorage temp ''e5f6a7b8-9c0d-4e1f-a2b3-c4d5e6f70819''
                ''invoice.pdf'' ''application/pdf''"

definition scan2 :: uploaded_file where
  "scan2 = diskStorage temp ''0c1d2e3f-4a5b-4c6d-9e7f-8091a2b3c4d5''
             ''scan.jpg'' ''image/jpeg''"









section \<open>Properties\<close>

subsection \<open>Evaluation of the concrete request\<close>

lemmas resolve_defs =
  resolve_def JSON_parse_order_def allFiles_def sortedFiles_def remainingFiles_def startsWith_def

lemmas upload_defs =
  invoice_def photo_def scan_def broken_def corrupt_def empty_pdf_def invoice2_def scan2_def
  temp_def diskStorage_def

lemma disk_uploads:
  "disk (path invoice) = Some ''invoice bytes''"
  "disk (path photo) = Some ''photo bytes''"
  "disk (path scan) = Some ''scan bytes''"
  "disk (path broken) = Some ''broken bytes''"
  "disk (path corrupt) = Some ''corrupt bytes''"
  "disk (path empty_pdf) = Some ''empty bytes''"
  by (simp_all add: disk_def upload_defs)

lemma ext_names:
  "toLowerCase (extname (originalname invoice)) = ''.pdf''"
  "toLowerCase (extname (originalname broken)) = ''.pdf''"
  "toLowerCase (extname (originalname photo)) = ''.png''"
  "toLowerCase (extname (originalname scan)) = ''.jpg''"
  "toLowerCase (extname (originalname corrupt)) = ''.jpg''"
  "toLowerCase (extname (originalname empty_pdf)) = ''.pdf''"
  by (simp_all add: toLowerCase_def extname_def lower_char_def upload_defs)

lemma ext_paths:
  "toLowerCase (extname (path photo)) = ''.png''"
  "toLowerCase (extname (path scan)) = ''.jpg''"
  "toLowerCase (extname (path corrupt)) = ''.jpg''"
  by (simp_all add: toLowerCase_def extname_def lower_char_def upload_defs)

lemmas ext_simps = ext_names ext_paths

lemma process_invoice:
  "process_file example_env invoice =
     Some [SourcePage ''invoice page 1'', SourcePage ''invoice page 2'']"
  by (simp add: process_file_def example_env_def disk_uploads ext_simps)

lemma process_broken: "process_file example_env broken = None"
  by (simp add: process_file_def example_env_def disk_uploads ext_simps)

lemma imageToPdf_photo:
  "imageToPdf example_env (path photo) =
     Some [NewPage \<lparr>page_width = Num 72, page_height = Num 72, image = ''photo image'',
                    image_x = Num 0, image_y = Num 0,
                    image_width = Num 72, image_height = Num 72\<rparr>]"
  by (simp add: imageToPdf_def embedImage_def page_size_def to_number_def js_or_def save_def
      example_env_def disk_uploads ext_simps)

lemma imageToPdf_scan:
  "imageToPdf example_env (path scan) =
     Some [NewPage \<lparr>page_width = Num 300, page_height = Num 150, image = ''scan image'',
                    image_x = Num 0, image_y = Num 0,
                    image_width = Num 300, image_height = Num 150\<rparr>]"
  by (simp add: imageToPdf_def embedImage_def page_size_def to_number_def js_or_def save_def
      example_env_def disk_uploads ext_simps)

lemma process_photo:
  "process_file example_env photo =
     Some [NewPage \<lparr>page_width = Num 72, page_height = Num 72, image = ''photo image'',
                    image_x = Num 0, image_y = Num 0,
                    image_width = Num 72, image_height = Num 72\<rparr>]"
  by (simp add: process_file_def ext_simps imageToPdf_photo)

lemma process_scan:
  "process_file example_env scan =
     Some [NewPage \<lparr>page_width = Num 300, page_height = Num 150, image = ''scan image'',
                    image_x = Num 0, image_y = Num 0,
                    image_width = Num 300, image_height = Num 150\<rparr>]"
  by (simp add: process_file_def ext_simps imageToPdf_scan)

lemma process_corrupt: "process_file example_env corrupt = None"
  by (simp add: process_file_def imageToPdf_def example_env_def disk_uploads ext_simps)

lemma process_empty_pdf: "process_file example_env empty_pdf = Some []"
  by (simp add: process_file_def example_env_def disk_uploads ext_simps)

lemmas process_simps =
  process_invoice process_broken process_photo process_scan process_corrupt process_empty_pdf

subsection \<open>Cleanup\<close>

lemma cleanup_all: "cleanup e fs = (map (\<lambda>f. Remove (path f)) fs, None)"
  by (induction fs) (simp_all add: catch_log_def split: option.splits)

lemma imageToPdf_fs_remove_update: "imageToPdf (e\<lparr>fs_remove := r\<rparr>) p = imageToPdf e p"
  by (simp add: imageToPdf_def embedImage_def split: option.splits)

lemma process_file_fs_remove_update:
  "process_file (e\<lparr>fs_remove := r\<rparr>) f = process_file e f"
  by (simp add: process_file_def imageToPdf_fs_remove_update split: option.splits)

lemma merge_loop_fs_remove_update:
  "merge_loop (e\<lparr>fs_remove := r\<rparr>) fs acc = merge_loop e fs acc"
  by (induction fs arbitrary: acc)
    (simp_all add: process_file_fs_remove_update split: option.splits)

lemma merged_document_fs_remove_update:
  "merged_document (e\<lparr>fs_remove := r\<rparr>) fs = merged_document e fs"
  by (simp add: merged_document_def merge_loop_fs_remove_update)

lemma try_merge_fs_remove_update: "try_merge (e\<lparr>fs_remove := r\<rparr>) ord fs = try_merge e ord fs"
  by (simp add: try_merge_def merged_document_fs_remove_update cleanup_all outputPath_def
      cong: option.case_cong sum.case_cong)

text \<open>
  Claim C7. A request whose file list is missing or empty is answered with status 400 and
  the message \<^verbatim>\<open>No files uploaded\<close>, whatever its order field and the environment are, and
  the handler issues no file-system call: the descriptor is not parsed, nothing is merged,
  written or removed.
\<close>

theorem empty_upload_rejected:
  "files req = None \<or> files req = Some [] \<Longrightarrow>
     merge_handler e req = (Json 400 ''No files uploaded'', [])"
  by (auto simp: merge_handler_def)

theorem empty_upload_rejected_witness:
  "files \<lparr>order = BadJSON ''Unexpected token'', files = Some []\<rparr> = Some [] \<and>
   merge_handler example_env \<lparr>order = BadJSON ''Unexpected token'', files = Some []\<rparr> =
     (Json 400 ''No files uploaded'', [])"
  using empty_upload_rejected
    [of "\<lparr>order = BadJSON ''Unexpected token'', files = Some []\<rparr>" example_env]
  by simp

text \<open>
  Claim C8. A removal that fails never raises and never stops the removals after it: the
  cleanup loop issues one \<^verbatim>\<open>remove\<close> per file, in order, and ends without an error
  whatever the removals answer; no error escapes the handler; and the response and the
  calls of the handler are the same whichever removals fail.
\<close>

theorem removal_failure_is_swallowed:
  "cleanup e fs = (map (\<lambda>f. Remove (path f)) fs, None) \<and>
   (\<forall>err. fst (merge_handler e req) \<noteq> Unhandled err) \<and>
   (\<forall>r. merge_handler (e\<lparr>fs_remove := r\<rparr>) req = merge_handler e req)"
proof (intro conjI allI)
  show "cleanup e fs = (map (\<lambda>f. Remove (path f)) fs, None)"
    by (rule cleanup_all)
next
  fix err
  show "fst (merge_handler e req) \<noteq> Unhandled err"
    by (simp add: merge_handler_def cleanup_all split: option.splits prod.splits sum.splits)
next
  fix r
  show "merge_handler (e\<lparr>fs_remove := r\<rparr>) req = merge_handler e req"
    by (simp add: merge_handler_def try_merge_fs_remove_update cleanup_all
        split: option.splits)
qed

theorem removal_failure_is_swallowed_witness:
  "cleanup example_env [invoice, photo, scan] =
     ([Remove (path invoice), Remove (path photo), Remove (path scan)], None) \<and>
   fs_remove example_env (path photo) = Some (Error ''EPERM'')"
  using removal_failure_is_swallowed [of example_env "[invoice, photo, scan]"]
  by (simp add: example_env_def)

subsection \<open>Ordering resolution\<close>

text \<open>
  Claim C2. The resolved sequence should hold every received file exactly once. The code
  does not. Every storage name starts with the empty identifier: with the descriptor
  \<^verbatim>\<open>[""]\<close> and two uploads, \<^verbatim>\<open>find\<close> takes the first upload for the identifier and the second is
  neither found nor remaining, so it is dropped; with the descriptor \<^verbatim>\<open>["",""]\<close> and one upload,
  the upload appears twice. The same happens with any identifier that is a prefix of the
  storage names of two uploads, as \<^verbatim>\<open>a\<close> is here, and with any matching identifier that is
  listed twice.
\<close>

theorem resolution_drops_and_duplicates:
  "resolve (IdArray ['''']) [invoice, photo] = Inr [invoice] \<and>
   resolve (IdArray ['''', '''']) [scan] = Inr [scan, scan] \<and>
   resolve (IdArray [''a'']) [invoice, photo] = Inr [invoice]"
  by (simp add: resolve_defs) (simp add: upload_defs)

lemma find_none_unmatched:
  "find (\<lambda>f. startsWith (filename f) ident) fs = None \<longleftrightarrow>
     \<not> list_ex (\<lambda>f. startsWith (filename f) ident) fs"
  by (auto simp: find_None_iff list_ex_iff)

lemma sortedFiles_ignores_unmatched:
  "sortedFiles (filter (\<lambda>id. list_ex (\<lambda>f. startsWith (filename f) id) fs) ids) fs = sortedFiles ids fs"
proof (induction ids)
  case Nil
  show ?case by (simp add: sortedFiles_def)
next
  case (Cons ident ids)
  show ?case
  proof (cases "list_ex (\<lambda>f. startsWith (filename f) ident) fs")
    case True
    with Cons show ?thesis by (simp add: sortedFiles_def)
  next
    case False
    then have "find (\<lambda>f. startsWith (filename f) ident) fs = None"
      by (simp add: find_none_unmatched)
    with False Cons show ?thesis by (simp add: sortedFiles_def)
  qed
qed

lemma remainingFiles_ignores_unmatched:
  "remainingFiles (filter (\<lambda>id. list_ex (\<lambda>f. startsWith (filename f) id) fs) ids) fs = remainingFiles ids fs"
  unfolding remainingFiles_def
  by (rule filter_cong) (auto simp: list_ex_iff)

lemma allFiles_empty: "allFiles [] fs = fs"
  by (simp add: allFiles_def sortedFiles_def remainingFiles_def)

text \<open>
  Claim C5, as stated, fails: a descriptor that \<^verbatim>\<open>JSON.parse\<close> rejects is not treated as an
  empty sequence. The SyntaxError leaves the \<^verbatim>\<open>try\<close> block, no sequence is resolved, and the
  request is answered with status 500 and the parser's message after the uploads are
  removed.
\<close>

theorem malformed_order_fails_request:
  "resolve (BadJSON ''Unexpected end of JSON input'') [invoice] =
     Inl (SyntaxError ''Unexpected end of JSON input'') \<and>
   merge_handler example_env
     \<lparr>order = BadJSON ''Unexpected end of JSON input'', files = Some [invoice]\<rparr> =
     (Json 500 ''Unexpected end of JSON input'', [Remove (path invoice)])"
  by (simp add: merge_handler_def try_merge_def resolve_def JSON_parse_order_def cleanup_all
      error_message_def)

text \<open>
  Claim C5, amended. For every list of received files, a descriptor that is absent, empty
  or a JSON array resolves to one sequence: receipt order for the absent and the empty
  descriptor, and for an array the sequence that is the same with and without the
  identifiers that match no file. A descriptor that is not valid JSON, or is JSON but
  not an array, raises an error instead, and the request fails with status 500 and the
  error's message, after one removal per upload.
\<close>

theorem resolution_total_on_arrays:
  "resolve NoOrder fs = Inr fs \<and>
   resolve (IdArray []) fs = Inr fs \<and>
   resolve (IdArray ids) fs = Inr (allFiles ids fs) \<and>
   allFiles (filter (\<lambda>id. list_ex (\<lambda>f. startsWith (filename f) id) fs) ids) fs = allFiles ids fs \<and>
   resolve (BadJSON m) fs = Inl (SyntaxError m) \<and>
   resolve (NotIdArray m) fs = Inl (TypeError m) \<and>
   (fs \<noteq> [] \<longrightarrow>
      merge_handler e \<lparr>order = BadJSON m, files = Some fs\<rparr> =
        (Json 500 (if m = [] then ''Failed to merge files'' else m),
         map (\<lambda>f. Remove (path f)) fs) \<and>
      merge_handler e \<lparr>order = NotIdArray m, files = Some fs\<rparr> =
        (Json 500 (if m = [] then ''Failed to merge files'' else m),
         map (\<lambda>f. Remove (path f)) fs))"
proof (intro conjI impI)
  show "allFiles (filter (\<lambda>id. list_ex (\<lambda>f. startsWith (filename f) id) fs) ids) fs = allFiles ids fs"
    by (simp add: allFiles_def sortedFiles_ignores_unmatched remainingFiles_ignores_unmatched)
qed (simp_all add: resolve_def JSON_parse_order_def allFiles_empty merge_handler_def
      try_merge_def cleanup_all error_message_def)

theorem resolution_total_on_arrays_witness:
  "resolve NoOrder [invoice, photo] = Inr [invoice, photo] \<and>
   resolve (IdArray [''zz'', ''a2'']) [invoice, photo] = Inr [photo, invoice] \<and>
   allFiles [''a2''] [invoice, photo] = allFiles [''zz'', ''a2''] [invoice, photo] \<and>
   [invoice] \<noteq> [] \<and>
   merge_handler example_env \<lparr>order = NotIdArray ''orderArray.map is not a function'',
       files = Some [invoice]\<rparr> =
     (Json 500 ''orderArray.map is not a function'', [Remove (path invoice)])"
  using resolution_total_on_arrays
    [of "[invoice, photo]" "[''zz'', ''a2'']" "''orderArray.map is not a function''" example_env]
    resolution_total_on_arrays
    [of "[invoice]" "[]" "''orderArray.map is not a function''" example_env]
  by (simp add: resolve_defs upload_defs)

subsection \<open>Image normalisation\<close>

text \<open>
  Claim C4. An image of W by H pixels without density should give a page of W by H points.
  The code gives a page of 72 by 72 points: \<^verbatim>\<open>metadata.width * 72 / metadata.density\<close> is
  \<^verbatim>\<open>NaN\<close> when the density is undefined, and \<^verbatim>\<open>NaN || 72\<close> is 72. The image is drawn at the
  origin with the width and height of that page.
\<close>

theorem page_size_without_density:
  "fs_readFile e p = Some b \<Longrightarrow> sharp_metadata e b = Some md \<Longrightarrow> density md = None \<Longrightarrow>
   embedImage e p b = Some img \<Longrightarrow>
   imageToPdf e p =
     Some [NewPage \<lparr>page_width = Num 72, page_height = Num 72, image = img,
                    image_x = Num 0, image_y = Num 0,
                    image_width = Num 72, image_height = Num 72\<rparr>]"
  by (simp add: imageToPdf_def page_size_def to_number_def js_or_def save_def)

theorem page_size_without_density_witness:
  "fs_readFile example_env (path photo) = Some ''photo bytes'' \<and>
   sharp_metadata example_env ''photo bytes'' =
     Some \<lparr>width = 200, height = 100, density = None\<rparr> \<and>
   embedImage example_env (path photo) ''photo bytes'' = Some ''photo image'' \<and>
   imageToPdf example_env (path photo) =
     Some [NewPage \<lparr>page_width = Num 72, page_height = Num 72, image = ''photo image'',
                    image_x = Num 0, image_y = Num 0,
                    image_width = Num 72, image_height = Num 72\<rparr>]"
proof -
  have r: "fs_readFile example_env (path photo) = Some ''photo bytes''"
    by (simp add: example_env_def disk_uploads)
  have m: "sharp_metadata example_env ''photo bytes'' =
      Some \<lparr>width = 200, height = 100, density = None\<rparr>"
    by (simp add: example_env_def)
  have d: "density \<lparr>width = 200, height = 100, density = None\<rparr> = None"
    by simp
  have i: "embedImage example_env (path photo) ''photo bytes'' = Some ''photo image''"
    by (simp add: embedImage_def ext_simps example_env_def)
  from page_size_without_density [OF r m d i] r m i show ?thesis
    by simp
qed

subsection \<open>The merge loop\<close>

lemma imageToPdf_single:
  "imageToPdf e p = Some pages \<Longrightarrow> \<exists>pg. pages = [pg]"
  by (auto simp: imageToPdf_def save_def split: option.splits prod.splits)

lemma imageToPdf_Some_iff:
  "imageToPdf e p \<noteq> None \<longleftrightarrow>
     (case fs_readFile e p of
        None \<Rightarrow> False
      | Some bytes \<Rightarrow> sharp_metadata e bytes \<noteq> None \<and> embedImage e p bytes \<noteq> None)"
  by (auto simp: imageToPdf_def split: option.splits prod.splits)

lemma process_file_Some_iff: "process_file e f \<noteq> None \<longleftrightarrow> can_parse_or_embed e f"
proof (cases "toLowerCase (extname (originalname f)) = ''.pdf''")
  case True
  then show ?thesis
    by (auto simp: process_file_def can_parse_or_embed_def split: option.splits)
next
  case False
  have a: "process_file e f \<noteq> None \<longleftrightarrow> imageToPdf e (path f) \<noteq> None"
    using False imageToPdf_single [of e "path f"]
    by (auto simp: process_file_def split: option.splits list.splits)
  have c: "can_parse_or_embed e f \<longleftrightarrow>
      (case fs_readFile e (path f) of
         None \<Rightarrow> False
       | Some bytes \<Rightarrow> sharp_metadata e bytes \<noteq> None \<and> embedImage e (path f) bytes \<noteq> None)"
    using False by (auto simp: can_parse_or_embed_def split: option.splits)
  show ?thesis
    by (simp only: a c imageToPdf_Some_iff)
qed

lemma merge_loop_first_failure:
  "find (\<lambda>f. process_file e f = None) sequence = Some bad \<Longrightarrow>
   merge_loop e sequence acc = Inl (Error (''Failed to process '' @ originalname bad))"
  by (induction sequence arbitrary: acc) (auto split: if_splits)









lemma process_file_None_iff: "process_file e f = None \<longleftrightarrow> \<not> can_parse_or_embed e f"
  using process_file_Some_iff [of e f] by blast

lemma unprocessable_in_sequence_fails:
  assumes "files req = Some fs" and "fs \<noteq> []"
    and "resolve (order req) fs = Inr sequence"
    and "f \<in> set sequence" and "\<not> can_parse_or_embed e f"
  shows "\<exists>bad. find (\<lambda>f. \<not> can_parse_or_embed e f) sequence = Some bad \<and>
           merge_handler e req =
             (Json 500 (''Failed to process '' @ originalname bad),
              map (\<lambda>f. Remove (path f)) fs)"
proof -
  have eq: "(\<lambda>f. \<not> can_parse_or_embed e f) = (\<lambda>f. process_file e f = None)"
    by (rule ext) (simp only: process_file_None_iff)
  from assms(4,5) have "find (\<lambda>f. \<not> can_parse_or_embed e f) sequence \<noteq> None"
    by (auto simp: find_None_iff)
  then obtain bad where bad: "find (\<lambda>f. \<not> can_parse_or_embed e f) sequence = Some bad"
    by auto
  then have "find (\<lambda>f. process_file e f = None) sequence = Some bad"
    by (simp only: eq)
  then have "merge_loop e sequence [] = Inl (Error (''Failed to process '' @ originalname bad))"
    by (rule merge_loop_first_failure)
  then have "merge_handler e req =
      (Json 500 (''Failed to process '' @ originalname bad), map (\<lambda>f. Remove (path f)) fs)"
    using assms(1,2,3)
    by (simp add: merge_handler_def try_merge_def merged_document_def cleanup_all
        error_message_def)
  with bad show ?thesis by blast
qed

text \<open>
  Claim C3. A list of uploads with a file that cannot be parsed or embedded should make the
  whole merge fail with an error that names the file. The loop does so for the files it
  is given (the lemma above), but it is given the resolved sequence: with the descriptor
  \<^verbatim>\<open>[""]\<close> and the uploads of a valid PDF followed by a file whose bytes do not parse, the
  resolution keeps the first upload only, and the request succeeds with a written document
  of the pages of the first.
\<close>

theorem dropped_unparsable_upload_is_merged:
  "\<not> can_parse_or_embed example_env broken \<and>
   merge_handler example_env \<lparr>order = IdArray [''''], files = Some [invoice, broken]\<rparr> =
     (Download (outputPath example_env) ''merged-invoice.pdf'',
      [WriteFile (outputPath example_env)
         [SourcePage ''invoice page 1'', SourcePage ''invoice page 2''],
       Remove (path invoice),
       RemoveAfter 60000 (outputPath example_env)])"
proof -
  have c: "\<not> can_parse_or_embed example_env broken"
    by (simp add: can_parse_or_embed_def example_env_def disk_uploads ext_simps)
  have r: "resolve (IdArray ['''']) [invoice, broken] = Inr [invoice]"
    by (simp add: resolve_defs)
  have m: "merged_document example_env [invoice] =
      Inr [SourcePage ''invoice page 1'', SourcePage ''invoice page 2'']"
    by (simp add: merged_document_def save_def process_simps)
  have w: "fs_writeFile example_env (outputPath example_env) = None"
    by (simp add: example_env_def)
  have t: "try_merge example_env (IdArray ['''']) [invoice, broken] =
      ([WriteFile (outputPath example_env)
          [SourcePage ''invoice page 1'', SourcePage ''invoice page 2''],
        Remove (path invoice)], Inr (outputPath example_env))"
    by (simp add: try_merge_def r m w cleanup_all)
  have "merge_handler example_env \<lparr>order = IdArray [''''], files = Some [invoice, broken]\<rparr> =
     (Download (outputPath example_env) ''merged-invoice.pdf'',
      [WriteFile (outputPath example_env)
         [SourcePage ''invoice page 1'', SourcePage ''invoice page 2''],
       Remove (path invoice),
       RemoveAfter 60000 (outputPath example_env)])"
    by (simp add: merge_handler_def t)
  with c show ?thesis by simp
qed

subsection \<open>Cleanup after the merge\<close>

text \<open>
  Claim C6. Every upload's temp file should get a \<^verbatim>\<open>remove\<close> call on every exit path. On
  the success path the code removes the files of the resolved sequence, not the files of
  the request as the error path does. With the descriptor \<^verbatim>\<open>[""]\<close> and two uploads, the
  second upload is not in the resolved sequence: the request succeeds, the first upload is
  removed and the output is scheduled for removal, and no call removes the temp file of
  the second upload.
\<close>

theorem success_path_leaks_dropped_upload:
  "merge_handler example_env \<lparr>order = IdArray [''''], files = Some [invoice, photo]\<rparr> =
     (Download (outputPath example_env) ''merged-invoice.pdf'',
      [WriteFile (outputPath example_env)
         [SourcePage ''invoice page 1'', SourcePage ''invoice page 2''],
       Remove (path invoice),
       RemoveAfter 60000 (outputPath example_env)]) \<and>
   Remove (path photo) \<notin>
     set (snd (merge_handler example_env
                 \<lparr>order = IdArray [''''], files = Some [invoice, photo]\<rparr>))"
proof -
  have r: "resolve (IdArray ['''']) [invoice, photo] = Inr [invoice]"
    by (simp add: resolve_defs)
  have m: "merged_document example_env [invoice] =
      Inr [SourcePage ''invoice page 1'', SourcePage ''invoice page 2'']"
    by (simp add: merged_document_def save_def process_simps)
  have w: "fs_writeFile example_env (outputPath example_env) = None"
    by (simp add: example_env_def)
  have t: "try_merge example_env (IdArray ['''']) [invoice, photo] =
      ([WriteFile (outputPath example_env)
          [SourcePage ''invoice page 1'', SourcePage ''invoice page 2''],
        Remove (path invoice)], Inr (outputPath example_env))"
    by (simp add: try_merge_def r m w cleanup_all)
  have h: "merge_handler example_env \<lparr>order = IdArray [''''], files = Some [invoice, photo]\<rparr> =
     (Download (outputPath example_env) ''merged-invoice.pdf'',
      [WriteFile (outputPath example_env)
         [SourcePage ''invoice page 1'', SourcePage ''invoice page 2''],
       Remove (path invoice),
       RemoveAfter 60000 (outputPath example_env)])"
    by (simp add: merge_handler_def t)
  have "path photo \<noteq> path invoice"
    by (simp add: upload_defs)
  then show ?thesis
    unfolding h by simp
qed

subsection \<open>Dispatch on the extension\<close>

lemma find_retag:
  "find (\<lambda>f. startsWith (filename f) ident) (map (\<lambda>f. f\<lparr>mimetype := m f\<rparr>) fs) =
   map_option (\<lambda>f. f\<lparr>mimetype := m f\<rparr>) (find (\<lambda>f. startsWith (filename f) ident) fs)"
  by (induction fs) simp_all

lemma sortedFiles_retag:
  "sortedFiles ids (map (\<lambda>f. f\<lparr>mimetype := m f\<rparr>) fs) =
   map (\<lambda>f. f\<lparr>mimetype := m f\<rparr>) (sortedFiles ids fs)"
  by (induction ids) (simp_all add: sortedFiles_def find_retag split: option.splits)

lemma remainingFiles_retag:
  "remainingFiles ids (map (\<lambda>f. f\<lparr>mimetype := m f\<rparr>) fs) =
   map (\<lambda>f. f\<lparr>mimetype := m f\<rparr>) (remainingFiles ids fs)"
  by (simp add: remainingFiles_def filter_map comp_def)

lemma allFiles_retag:
  "allFiles ids (map (\<lambda>f. f\<lparr>mimetype := m f\<rparr>) fs) =
   map (\<lambda>f. f\<lparr>mimetype := m f\<rparr>) (allFiles ids fs)"
  by (simp add: allFiles_def sortedFiles_retag remainingFiles_retag)

lemma resolve_retag:
  "resolve ord (map (\<lambda>f. f\<lparr>mimetype := m f\<rparr>) fs) =
   map_sum (\<lambda>err. err) (map (\<lambda>f. f\<lparr>mimetype := m f\<rparr>)) (resolve ord fs)"
  by (simp add: resolve_def allFiles_retag split: sum.splits)

lemma process_file_retag: "process_file e (f\<lparr>mimetype := t\<rparr>) = process_file e f"
  by (simp add: process_file_def)

lemma merge_loop_retag:
  "merge_loop e (map (\<lambda>f. f\<lparr>mimetype := m f\<rparr>) fs) acc = merge_loop e fs acc"
  by (induction fs arbitrary: acc) (simp_all add: process_file_retag split: option.splits)

lemma merged_document_retag:
  "merged_document e (map (\<lambda>f. f\<lparr>mimetype := m f\<rparr>) fs) = merged_document e fs"
  by (simp add: merged_document_def merge_loop_retag)

lemma try_merge_retag:
  "try_merge e ord (map (\<lambda>f. f\<lparr>mimetype := m f\<rparr>) fs) = try_merge e ord fs"
  by (cases "resolve ord fs")
    (simp_all add: try_merge_def resolve_retag merged_document_retag cleanup_all comp_def
      split: sum.splits option.splits)

lemma merge_handler_retag:
  "merge_handler e (req\<lparr>files := map_option (map (\<lambda>f. f\<lparr>mimetype := m f\<rparr>)) (files req)\<rparr>) =
   merge_handler e req"
  by (cases "files req")
    (simp_all add: merge_handler_def try_merge_retag cleanup_all comp_def)

text \<open>
  Claim C10. The declared MIME type plays no role. Processing a file gives the same result
  whatever its \<^verbatim>\<open>mimetype\<close> is; the PDF branch is taken exactly when the lower-cased
  extension of the original name is \<^verbatim>\<open>.pdf\<close>, and every other file goes through
  \<^verbatim>\<open>imageToPdf\<close>; there the image is embedded as PNG exactly when the lower-cased extension of
  the path is \<^verbatim>\<open>.png\<close>, and as JPEG otherwise; and the response and the calls of the whole
  handler are unchanged when the MIME types of the uploads are replaced by any others.
\<close>

theorem dispatch_by_extension_only:
  "process_file e (f\<lparr>mimetype := t\<rparr>) = process_file e f \<and>
   (toLowerCase (extname (originalname f)) = ''.pdf'' \<longrightarrow>
      process_file e f =
        (case fs_readFile e (path f) of
           None \<Rightarrow> None
         | Some pdfBytes \<Rightarrow> map_option (map SourcePage) (PDFDocument_load e pdfBytes))) \<and>
   (toLowerCase (extname (originalname f)) \<noteq> ''.pdf'' \<longrightarrow>
      process_file e f =
        (case imageToPdf e (path f) of
           None \<Rightarrow> None
         | Some [] \<Rightarrow> None
         | Some (pg # rest) \<Rightarrow> Some [pg])) \<and>
   (toLowerCase (extname p) = ''.png'' \<longrightarrow> embedImage e p b = embedPng e b) \<and>
   (toLowerCase (extname p) \<noteq> ''.png'' \<longrightarrow> embedImage e p b = embedJpg e b) \<and>
   merge_handler e (req\<lparr>files := map_option (map (\<lambda>f. f\<lparr>mimetype := m f\<rparr>)) (files req)\<rparr>) =
     merge_handler e req"
proof (intro conjI impI)
  show "process_file e (f\<lparr>mimetype := t\<rparr>) = process_file e f"
    by (rule process_file_retag)
  show "merge_handler e
      (req\<lparr>files := map_option (map (\<lambda>f. f\<lparr>mimetype := m f\<rparr>)) (files req)\<rparr>) =
      merge_handler e req"
    by (rule merge_handler_retag)
qed (simp_all add: process_file_def embedImage_def split: option.splits list.splits)

theorem dispatch_by_extension_only_witness:
  "process_file example_env (invoice\<lparr>mimetype := ''image/png''\<rparr>) =
     Some [SourcePage ''invoice page 1'', SourcePage ''invoice page 2''] \<and>
   toLowerCase (extname (path scan)) \<noteq> ''.png'' \<and>
   embedImage example_env (path scan) ''scan bytes'' = Some ''scan image'' \<and>
   toLowerCase (extname (path photo)) = ''.png'' \<and>
   embedImage example_env (path photo) ''scan bytes'' = None"
  using dispatch_by_extension_only
      [where e = example_env and f = invoice and t = "''image/png''"
         and p = "path scan" and b = "''scan bytes''"]
    dispatch_by_extension_only
      [where e = example_env and f = invoice and t = "''image/png''"
         and p = "path photo" and b = "''scan bytes''"]
  by (simp add: process_simps ext_simps) (simp add: example_env_def)

subsection \<open>Two runs\<close>




































end
